theory Spec2Isabelle
  imports Main
begin

section \<open>Values in flight\<close>

text \<open>
  Strings are lists of bytes: a JavaScript string that arrives in a parsed query is
  well-formed Unicode and is represented here by its UTF-8 encoding, the form on which
  \<^verbatim>\<open>URLSearchParams\<close> percent-encodes. The empty JavaScript string is the empty list.
\<close>

text \<open>
  The values \<^verbatim>\<open>response.json()\<close> can return and \<^verbatim>\<open>res.json(...)\<close> can be given.
  The handler never looks inside a number, so the type of numbers is a parameter. An
  object is the list of its own properties in the order of their creation.
\<close>

datatype 'n json_value =
    JNull
  | JBool bool
  | JNum 'n
  | JStr string
  | JArr "'n json_value list"
  | JObj "(string \<times> 'n json_value) list"

text \<open>A thrown JavaScript error: its name and its message.\<close>

datatype js_error = JsError string string

subsection \<open>The inbound request\<close>

text \<open>
  Modelled from the spec: the host's declaration of \<^verbatim>\<open>req\<close> is not part of the
  repository. The spec's data model gives an HTTP method and a mapping of query string
  keys to string values; a key that is absent reads as \<^verbatim>\<open>undefined\<close>, here \<open>None\<close>.
\<close>

record request =
  req_method :: string
  query :: "string \<rightharpoonup> string"

text \<open>JavaScript truthiness of a query value: \<^verbatim>\<open>undefined\<close> and \<^verbatim>\<open>''\<close> are falsy.\<close>

fun truthy :: "string option \<Rightarrow> bool" where
  "truthy None = False"
| "truthy (Some v) = (v \<noteq> [])"

subsection \<open>The response object\<close>

text \<open>
  What the host has put on the wire for one \<^verbatim>\<open>end\<close> or \<^verbatim>\<open>json\<close> call: the status
  code and the headers as they stood at that moment, and the body (\<open>None\<close> for an empty
  body).
\<close>

record 'n http_response =
  r_status :: nat
  r_headers :: "string \<rightharpoonup> string"
  r_body :: "'n json_value option"

text \<open>
  The \<^verbatim>\<open>res\<close> object: the headers set so far, the status code set so far, and the
  responses sent through it, oldest first.
\<close>

record 'n res =
  headers :: "string \<rightharpoonup> string"
  statusCode :: nat
  sent :: "'n http_response list"

definition new_res :: "'n res" where
  "new_res = \<lparr>headers = Map.empty, statusCode = 200, sent = []\<rparr>"

definition setHeader :: "string \<Rightarrow> string \<Rightarrow> 'n res \<Rightarrow> 'n res" where
  "setHeader name v r = r\<lparr>headers := (headers r)(name \<mapsto> v)\<rparr>"

definition status :: "nat \<Rightarrow> 'n res \<Rightarrow> 'n res" where
  "status code r = r\<lparr>statusCode := code\<rparr>"

definition send :: "'n json_value option \<Rightarrow> 'n res \<Rightarrow> 'n res" where
  "send b r =
     r\<lparr>sent := sent r @ [\<lparr>r_status = statusCode r, r_headers = headers r, r_body = b\<rparr>]\<rparr>"

text \<open>\<^verbatim>\<open>res.end()\<close>: a response with an empty body.\<close>

definition end_res :: "'n res \<Rightarrow> 'n res" where
  "end_res r = send None r"

text \<open>\<^verbatim>\<open>res.json(v)\<close>: a response whose body is the value \<open>v\<close>.\<close>

definition json :: "'n json_value \<Rightarrow> 'n res \<Rightarrow> 'n res" where
  "json v r = send (Some v) r"

text \<open>The object literal \<^verbatim>\<open>{ error: msg }\<close>.\<close>

definition error_body :: "string \<Rightarrow> 'n json_value" where
  "error_body msg = JObj [(''error'', JStr msg)]"

subsection \<open>The upstream\<close>

text \<open>The outbound call: the URL and the options given to \<^verbatim>\<open>fetch\<close>.\<close>

record fetch_request =
  url :: string
  fetch_method :: string
  fetch_headers :: "(string \<times> string) list"

text \<open>
  The \<^verbatim>\<open>Response\<close> of a settled \<^verbatim>\<open>fetch\<close>: its status, its status text, and
  what \<^verbatim>\<open>response.json()\<close> gives, a thrown error when the body is not JSON.
\<close>

record 'n fetch_response =
  resp_status :: nat
  resp_statusText :: string
  resp_json :: "js_error + 'n json_value"

text \<open>\<^verbatim>\<open>response.ok\<close>: the status is in the range 200 to 299.\<close>

definition ok :: "'n fetch_response \<Rightarrow> bool" where
  "ok response = (200 \<le> resp_status response \<and> resp_status response \<le> 299)"

text \<open>
  A settled call either rejects (the transport failed) or resolves to a response. The
  model covers the calls that settle: the handler sets no timeout of its own and leaves
  the bound on the wait to the transport and the host.
\<close>

datatype 'n fetch_outcome = Rejects js_error | Resolves "'n fetch_response"

subsection \<open>The world outside one invocation\<close>

datatype log_arg = LStr string | LErr js_error

text \<open>
  What outlives an invocation: the lines written with \<^verbatim>\<open>console.error\<close> and the
  outbound calls made, oldest first.
\<close>

record world =
  console :: "log_arg list list"
  network :: "fetch_request list"

definition console_error :: "log_arg list \<Rightarrow> world \<Rightarrow> world" where
  "console_error args w = w\<lparr>console := console w @ [args]\<rparr>"

section \<open>\<^verbatim>\<open>URLSearchParams\<close>\<close>

text \<open>
  The list of name-value pairs behind a \<^verbatim>\<open>URLSearchParams\<close> object, and its
  serialisation as \<^verbatim>\<open>application/x-www-form-urlencoded\<close>: a space becomes \<^verbatim>\<open>+\<close>,
  the ASCII letters and digits and \<^verbatim>\<open>* - . _\<close> stay, every other byte becomes
  \<^verbatim>\<open>%XX\<close> with upper-case hexadecimal digits.
\<close>

type_synonym params = "(string \<times> string) list"

definition append_param :: "params \<Rightarrow> string \<Rightarrow> string \<Rightarrow> params" where
  "append_param ps name v = ps @ [(name, v)]"

definition is_digit :: "char \<Rightarrow> bool" where
  "is_digit c = (48 \<le> (of_char c :: nat) \<and> (of_char c :: nat) \<le> 57)"

definition is_upper :: "char \<Rightarrow> bool" where
  "is_upper c = (65 \<le> (of_char c :: nat) \<and> (of_char c :: nat) \<le> 90)"

definition is_lower :: "char \<Rightarrow> bool" where
  "is_lower c = (97 \<le> (of_char c :: nat) \<and> (of_char c :: nat) \<le> 122)"

definition unreserved :: "char \<Rightarrow> bool" where
  "unreserved c =
     (is_digit c \<or> is_upper c \<or> is_lower c \<or>
      c = CHR ''*'' \<or> c = CHR ''-'' \<or> c = CHR ''.'' \<or> c = CHR ''_'')"

definition hex_digit :: "nat \<Rightarrow> char" where
  "hex_digit n = (if n < 10 then char_of (48 + n) else char_of (55 + n))"

definition percent_encode :: "char \<Rightarrow> string" where
  "percent_encode c =
     [CHR ''%'', hex_digit ((of_char c :: nat) div 16), hex_digit ((of_char c :: nat) mod 16)]"

definition urlencode_byte :: "char \<Rightarrow> string" where
  "urlencode_byte c =
     (if c = CHR '' '' then ''+''
      else if unreserved c then [c]
      else percent_encode c)"

definition urlencode :: "string \<Rightarrow> string" where
  "urlencode s = concat (map urlencode_byte s)"

definition serialize_pair :: "string \<times> string \<Rightarrow> string" where
  "serialize_pair p = urlencode (fst p) @ ''='' @ urlencode (snd p)"

fun toString :: "params \<Rightarrow> string" where
  "toString [] = []"
| "toString [p] = serialize_pair p"
| "toString (p # ps) = serialize_pair p @ ''&'' @ toString ps"

text \<open>\<^verbatim>\<open>String(v)\<close>, the conversion \<^verbatim>\<open>append\<close> applies to its arguments.\<close>

fun to_string :: "string option \<Rightarrow> string" where
  "to_string None = ''undefined''"
| "to_string (Some v) = v"

subsection \<open>Reading a query string back\<close>

text \<open>
  The parser of \<^verbatim>\<open>application/x-www-form-urlencoded\<close>, as the receiving side runs
  it: split at \<^verbatim>\<open>&\<close>, skip empty pieces, split each piece at its first \<^verbatim>\<open>=\<close>, turn
  \<^verbatim>\<open>+\<close> into a space, percent-decode.
\<close>

fun split_on :: "char \<Rightarrow> string \<Rightarrow> string list" where
  "split_on d [] = [[]]"
| "split_on d (c # cs) =
     (if c = d then [] # split_on d cs
      else (case split_on d cs of
              [] \<Rightarrow> [[c]]
            | x # xs \<Rightarrow> (c # x) # xs))"

definition is_hex :: "char \<Rightarrow> bool" where
  "is_hex c =
     (is_digit c \<or> (65 \<le> (of_char c :: nat) \<and> (of_char c :: nat) \<le> 70)
                \<or> (97 \<le> (of_char c :: nat) \<and> (of_char c :: nat) \<le> 102))"

definition hex_value :: "char \<Rightarrow> nat" where
  "hex_value c =
     (if is_digit c then of_char c - 48
      else if of_char c \<le> (70 :: nat) then of_char c - 55
      else of_char c - 87)"

fun percent_decode :: "string \<Rightarrow> string" where
  "percent_decode (c # h1 # h2 # cs) =
     (if c = CHR ''%'' \<and> is_hex h1 \<and> is_hex h2
      then char_of (16 * hex_value h1 + hex_value h2) # percent_decode cs
      else c # percent_decode (h1 # h2 # cs))"
| "percent_decode (c # cs) = c # percent_decode cs"
| "percent_decode [] = []"

definition plus_to_space :: "string \<Rightarrow> string" where
  "plus_to_space s = map (\<lambda>c. if c = CHR ''+'' then CHR '' '' else c) s"

definition parse_pair :: "string \<Rightarrow> string \<times> string" where
  "parse_pair bytes =
     (let name = takeWhile (\<lambda>c. c \<noteq> CHR ''='') bytes;
          v = drop 1 (dropWhile (\<lambda>c. c \<noteq> CHR ''='') bytes)
      in (percent_decode (plus_to_space name), percent_decode (plus_to_space v)))"

definition parse_urlencoded :: "string \<Rightarrow> params" where
  "parse_urlencoded input = map parse_pair (filter (\<lambda>bytes. bytes \<noteq> []) (split_on CHR ''&'' input))"

text \<open>
  The query component of a URL: what stands between the first \<^verbatim>\<open>?\<close> and the
  fragment, which starts at the first \<^verbatim>\<open>#\<close>.
\<close>

definition url_query :: "string \<Rightarrow> string" where
  "url_query u =
     drop 1 (dropWhile (\<lambda>c. c \<noteq> CHR ''?'') (takeWhile (\<lambda>c. c \<noteq> CHR ''#'') u))"

section \<open>The handler\<close>

text \<open>The decimal digits of a number, as a template literal prints it.\<close>

function number_to_string :: "nat \<Rightarrow> string" where
  "number_to_string n =
     (if n < 10 then [char_of (48 + n)]
      else number_to_string (n div 10) @ [char_of (48 + n mod 10)])"
  by pat_completeness auto
termination
  by (relation "measure id") auto

declare number_to_string.simps [simp del]

text \<open>The options of the outbound call.\<close>

definition kaito_request :: "string \<Rightarrow> fetch_request" where
  "kaito_request kaitoUrl =
     \<lparr>url = kaitoUrl,
      fetch_method = ''GET'',
      fetch_headers = [(''Content-Type'', ''application/json''),
                       (''User-Agent'', ''kaito-yaps-proxy/1.0.0'')]\<rparr>"

text \<open>The query parameters built for the upstream (lines 29 to 31 of the source).\<close>

definition queryParams :: "request \<Rightarrow> params" where
  "queryParams req =
     (let username = query req ''username'';
          user_id = query req ''user_id'';
          ps = [];
          ps = (if truthy username then append_param ps ''username'' (to_string username) else ps);
          ps = (if truthy user_id then append_param ps ''user_id'' (to_string user_id) else ps)
      in ps)"

definition kaitoUrl :: "request \<Rightarrow> string" where
  "kaitoUrl req = ''https://api.kaito.ai/api/v1/yaps?'' @ toString (queryParams req)"

text \<open>
  The body of the \<^verbatim>\<open>try\<close> block. It returns \<open>Inl e\<close> when \<open>e\<close> is thrown inside it,
  with the state as it stood at the throw, and \<open>Inr ()\<close> when it completes or returns.
  The environment \<open>fetch\<close> says how each outbound call settles.
\<close>

definition try_block ::
  "(fetch_request \<Rightarrow> 'n fetch_outcome) \<Rightarrow> request \<Rightarrow> 'n res \<times> world
     \<Rightarrow> (js_error + unit) \<times> 'n res \<times> world" where
  "try_block fetch req s =
     (let (res, w) = s;
          username = query req ''username'';
          user_id = query req ''user_id''
      in if \<not> truthy username \<and> \<not> truthy user_id
         then (Inr (), json (error_body ''username or user_id required'') (status 400 res), w)
         else
           (let rq = kaito_request (kaitoUrl req);
                w = w\<lparr>network := network w @ [rq]\<rparr>
            in case fetch rq of
                 Rejects e \<Rightarrow> (Inl e, res, w)
               | Resolves response \<Rightarrow>
                   if \<not> ok response
                   then (Inr (),
                         json (error_body ''Upstream error'') (status 502 res),
                         console_error
                           [LStr (''Kaito API error: '' @ number_to_string (resp_status response)
                                    @ '' '' @ resp_statusText response)] w)
                   else (case resp_json response of
                           Inl e \<Rightarrow> (Inl e, res, w)
                         | Inr data \<Rightarrow> (Inr (), json data (status 200 res), w))))"

text \<open>
  The handler: the response object and the world before, the response object and the
  world after, and how the call ends (\<open>Inl e\<close> would be an error thrown out of it).
\<close>

definition handler ::
  "(fetch_request \<Rightarrow> 'n fetch_outcome) \<Rightarrow> request \<Rightarrow> 'n res \<times> world
     \<Rightarrow> (js_error + unit) \<times> 'n res \<times> world" where
  "handler fetch req s =
     (let (res, w) = s;
          res = setHeader ''Access-Control-Allow-Origin'' ''*'' res;
          res = setHeader ''Access-Control-Allow-Methods'' ''GET'' res;
          res = setHeader ''Access-Control-Allow-Headers'' ''Content-Type'' res
      in if req_method req = ''OPTIONS'' then (Inr (), end_res (status 200 res), w)
         else if req_method req \<noteq> ''GET''
         then (Inr (), json (error_body ''Method not allowed'') (status 405 res), w)
         else (case try_block fetch req (res, w) of
                 (Inr u, res, w) \<Rightarrow> (Inr (), res, w)
               | (Inl error, res, w) \<Rightarrow>
                   (Inr (),
                    json (error_body ''Internal server error'') (status 500 res),
                    console_error [LStr ''Proxy error:'', LErr error] w)))"

section \<open>Reading an invocation\<close>

text \<open>The header map after lines 3 to 5 of the source have run on it.\<close>

definition with_cors :: "(string \<rightharpoonup> string) \<Rightarrow> (string \<rightharpoonup> string)" where
  "with_cors h =
     h(''Access-Control-Allow-Origin'' \<mapsto> ''*'',
       ''Access-Control-Allow-Methods'' \<mapsto> ''GET'',
       ''Access-Control-Allow-Headers'' \<mapsto> ''Content-Type'')"

text \<open>
  The response object after exactly one response with status \<open>code\<close> and body \<open>b\<close>
  has been sent through it, under the three headers.
\<close>

definition responded :: "'n res \<Rightarrow> nat \<Rightarrow> 'n json_value option \<Rightarrow> 'n res" where
  "responded res code b =
     res\<lparr>headers := with_cors (headers res),
         statusCode := code,
         sent := sent res @ [\<lparr>r_status = code, r_headers = with_cors (headers res), r_body = b\<rparr>]\<rparr>"

text \<open>
  In the spec's words: the parameters that were supplied with non-empty values, the
  two recognised keys in the order \<^verbatim>\<open>username\<close>, \<^verbatim>\<open>user_id\<close>.
\<close>

definition supplied :: "request \<Rightarrow> params" where
  "supplied req =
     concat (map (\<lambda>k. case query req k of
                         None \<Rightarrow> []
                       | Some v \<Rightarrow> if v = [] then [] else [(k, v)])
                 [''username'', ''user_id''])"

section \<open>JSON documents and the values parsed from them\<close>











text \<open>
  In the URL standard's words: the bytes the form-urlencoded serialiser leaves as they
  are.
\<close>

definition plain_bytes :: string where
  "plain_bytes = ''ABCDEFGHIJKLMNOPQRSTUVWXYZabcdefghijklmnopqrstuvwxyz0123456789*-._''"

section \<open>Percent-encoding and its inverse\<close>

text \<open>
  Decoding undoes encoding byte by byte, and an encoded string holds none of the
  delimiters \<^verbatim>\<open>&\<close>, \<^verbatim>\<open>=\<close>, \<^verbatim>\<open>#\<close>, \<^verbatim>\<open>?\<close>; so the parser finds the pairs the
  serialiser wrote.
\<close>

lemma of_char_lt_256: "(of_char c :: nat) < 256"
  by (cases c) (simp add: of_char_def horner_sum_eq_sum)

lemma of_char_hex_digit:
  "n < 16 \<Longrightarrow> (of_char (hex_digit n) :: nat) = (if n < 10 then 48 + n else 55 + n)"
  by (simp add: hex_digit_def)

lemma hex_digit_is_hex: "n < 16 \<Longrightarrow> is_hex (hex_digit n)"
  by (simp add: is_hex_def is_digit_def of_char_hex_digit)

lemma hex_value_hex_digit: "n < 16 \<Longrightarrow> hex_value (hex_digit n) = n"
  by (simp add: hex_value_def is_digit_def of_char_hex_digit)

lemma char_neq_by_code: "(of_char c :: nat) \<noteq> of_char d \<Longrightarrow> c \<noteq> d"
  by auto

lemma hex_digit_not_special:
  assumes "n < 16"
  shows "hex_digit n \<noteq> CHR ''+''" "hex_digit n \<noteq> CHR ''&''" "hex_digit n \<noteq> CHR ''=''"
    "hex_digit n \<noteq> CHR ''#''" "hex_digit n \<noteq> CHR ''?''" "hex_digit n \<noteq> CHR ''%''"
  using assms by (auto intro!: char_neq_by_code simp add: of_char_hex_digit split: if_splits)

lemma unreserved_not_special:
  assumes "unreserved c"
  shows "c \<noteq> CHR ''+''" "c \<noteq> CHR ''&''" "c \<noteq> CHR ''=''"
    "c \<noteq> CHR ''#''" "c \<noteq> CHR ''?''" "c \<noteq> CHR ''%''"
  using assms by (auto simp add: unreserved_def is_digit_def is_upper_def is_lower_def)

lemma percent_decode_plain: "c \<noteq> CHR ''%'' \<Longrightarrow> percent_decode (c # cs) = c # percent_decode cs"
  by (cases "c # cs" rule: percent_decode.cases) auto

lemma percent_decode_encoded_byte:
  "percent_decode (plus_to_space (urlencode_byte c) @ rest) = c # percent_decode rest"
proof -
  have lt: "(of_char c :: nat) div 16 < 16" "(of_char c :: nat) mod 16 < 16"
    using of_char_lt_256 [of c] by (simp_all add: less_mult_imp_div_less)
  show ?thesis
  proof (cases "c = CHR '' ''")
    case True
    then show ?thesis
      by (simp add: urlencode_byte_def plus_to_space_def percent_decode_plain)
  next
    case space: False
    show ?thesis
    proof (cases "unreserved c")
      case True
      then show ?thesis
        using space unreserved_not_special [OF True]
        by (simp add: urlencode_byte_def plus_to_space_def percent_decode_plain)
    next
      case False
      then show ?thesis
        using space lt
        by (simp add: urlencode_byte_def percent_encode_def plus_to_space_def
            hex_digit_not_special hex_digit_is_hex hex_value_hex_digit)
    qed
  qed
qed

lemma plus_to_space_append: "plus_to_space (xs @ ys) = plus_to_space xs @ plus_to_space ys"
  by (simp add: plus_to_space_def)

lemma percent_decode_urlencode: "percent_decode (plus_to_space (urlencode s)) = s"
  by (induction s)
    (simp_all add: urlencode_def plus_to_space_append percent_decode_encoded_byte,
      simp add: plus_to_space_def)

lemma urlencode_byte_chars:
  "x \<in> set (urlencode_byte c) \<Longrightarrow>
     x \<noteq> CHR ''&'' \<and> x \<noteq> CHR ''='' \<and> x \<noteq> CHR ''#'' \<and> x \<noteq> CHR ''?''"
proof -
  assume x: "x \<in> set (urlencode_byte c)"
  have lt: "(of_char c :: nat) div 16 < 16" "(of_char c :: nat) mod 16 < 16"
    using of_char_lt_256 [of c] by (simp_all add: less_mult_imp_div_less)
  show ?thesis
    using x unreserved_not_special [of c] hex_digit_not_special [OF lt(1)] hex_digit_not_special [OF lt(2)]
    by (auto simp add: urlencode_byte_def percent_encode_def split: if_splits)
qed

lemma urlencode_chars:
  "x \<in> set (urlencode s) \<Longrightarrow>
     x \<noteq> CHR ''&'' \<and> x \<noteq> CHR ''='' \<and> x \<noteq> CHR ''#'' \<and> x \<noteq> CHR ''?''"
  unfolding urlencode_def using urlencode_byte_chars by auto

lemma split_on_no_delim: "d \<notin> set xs \<Longrightarrow> split_on d xs = [xs]"
  by (induction xs) auto

lemma split_on_append: "d \<notin> set xs \<Longrightarrow> split_on d (xs @ d # ys) = xs # split_on d ys"
  by (induction xs) auto

lemma serialize_pair_chars:
  "CHR ''&'' \<notin> set (serialize_pair p)" "CHR ''#'' \<notin> set (serialize_pair p)"
  using urlencode_chars by (auto simp add: serialize_pair_def)

lemma serialize_pair_nonempty: "serialize_pair p \<noteq> []"
  by (simp add: serialize_pair_def)

lemma parse_pair_serialize_pair: "parse_pair (serialize_pair p) = p"
proof -
  have no_eq: "\<And>x. x \<in> set (urlencode (fst p)) \<Longrightarrow> x \<noteq> CHR ''=''"
    using urlencode_chars by blast
  have t: "takeWhile (\<lambda>c. c \<noteq> CHR ''='') (urlencode (fst p) @ CHR ''='' # urlencode (snd p))
             = urlencode (fst p)"
    using no_eq by (simp add: takeWhile_append2)
  have d: "dropWhile (\<lambda>c. c \<noteq> CHR ''='') (urlencode (fst p) @ CHR ''='' # urlencode (snd p))
             = CHR ''='' # urlencode (snd p)"
    using no_eq by (simp add: dropWhile_append2)
  show ?thesis
    by (simp add: parse_pair_def serialize_pair_def t d percent_decode_urlencode)
qed

lemma toString_chars: "CHR ''#'' \<notin> set (toString ps)"
  by (induction ps rule: toString.induct) (simp_all add: serialize_pair_chars)

lemma parse_urlencoded_toString: "parse_urlencoded (toString ps) = ps"
proof (induction ps rule: toString.induct)
  case 1
  show ?case by (simp add: parse_urlencoded_def)
next
  case (2 p)
  show ?case
    by (simp add: parse_urlencoded_def split_on_no_delim serialize_pair_chars
        serialize_pair_nonempty parse_pair_serialize_pair)
next
  case (3 p q ps)
  then show ?case
    by (simp add: parse_urlencoded_def split_on_append serialize_pair_chars
        serialize_pair_nonempty parse_pair_serialize_pair)
qed

lemma url_query_kaitoUrl: "url_query (kaitoUrl req) = toString (queryParams req)"
proof -
  have "takeWhile (\<lambda>c. c \<noteq> CHR ''#'') (toString (queryParams req)) = toString (queryParams req)"
    using toString_chars [of "queryParams req"] by (auto simp add: takeWhile_eq_all_conv)
  then show ?thesis
    by (simp add: url_query_def kaitoUrl_def)
qed

lemma plain_bytes_unreserved:
  "list_all (\<lambda>c. unreserved c \<and> c \<noteq> CHR '' '') plain_bytes"
  by (simp add: plain_bytes_def unreserved_def is_digit_def is_upper_def is_lower_def)

lemma urlencode_byte_plain: "c \<in> set plain_bytes \<Longrightarrow> urlencode_byte c = [c]"
  using plain_bytes_unreserved by (simp add: list_all_iff urlencode_byte_def)

lemma urlencode_plain: "set u \<subseteq> set plain_bytes \<Longrightarrow> urlencode u = u"
  by (induction u) (simp_all add: urlencode_def urlencode_byte_plain)

section \<open>Parsing and printing a document\<close>








section \<open>The paths of the handler\<close>

text \<open>One equation for each path through the source, then what all paths share.\<close>

lemmas handler_defs =
  handler_def try_block_def setHeader_def status_def json_def end_res_def send_def
  console_error_def with_cors_def responded_def Let_def

lemma queryParams_supplied: "queryParams req = supplied req"
  by (cases "query req ''username''"; cases "query req ''user_id''")
    (simp_all add: queryParams_def supplied_def append_param_def)

lemma handler_OPTIONS:
  "req_method req = ''OPTIONS'' \<Longrightarrow>
   handler fetch req (res, w) = (Inr (), responded res 200 None, w)"
  by (simp add: handler_defs)

lemma handler_not_GET:
  "req_method req \<noteq> ''OPTIONS'' \<Longrightarrow> req_method req \<noteq> ''GET'' \<Longrightarrow>
   handler fetch req (res, w) =
     (Inr (), responded res 405 (Some (error_body ''Method not allowed'')), w)"
  by (simp add: handler_defs)

lemma handler_400:
  "req_method req = ''GET'' \<Longrightarrow>
   \<not> truthy (query req ''username'') \<Longrightarrow> \<not> truthy (query req ''user_id'') \<Longrightarrow>
   handler fetch req (res, w) =
     (Inr (), responded res 400 (Some (error_body ''username or user_id required'')), w)"
  by (simp add: handler_defs)

lemma handler_rejects:
  "req_method req = ''GET'' \<Longrightarrow>
   truthy (query req ''username'') \<or> truthy (query req ''user_id'') \<Longrightarrow>
   fetch (kaito_request (kaitoUrl req)) = Rejects e \<Longrightarrow>
   handler fetch req (res, w) =
     (Inr (), responded res 500 (Some (error_body ''Internal server error'')),
      w\<lparr>console := console w @ [[LStr ''Proxy error:'', LErr e]],
        network := network w @ [kaito_request (kaitoUrl req)]\<rparr>)"
  by (cases "truthy (query req ''username'')") (simp_all add: handler_defs)

lemma handler_502:
  "req_method req = ''GET'' \<Longrightarrow>
   truthy (query req ''username'') \<or> truthy (query req ''user_id'') \<Longrightarrow>
   fetch (kaito_request (kaitoUrl req)) = Resolves response \<Longrightarrow> \<not> ok response \<Longrightarrow>
   handler fetch req (res, w) =
     (Inr (), responded res 502 (Some (error_body ''Upstream error'')),
      w\<lparr>console := console w @
            [[LStr (''Kaito API error: '' @ number_to_string (resp_status response) @ '' ''
                      @ resp_statusText response)]],
        network := network w @ [kaito_request (kaitoUrl req)]\<rparr>)"
  by (cases "truthy (query req ''username'')") (simp_all add: handler_defs)

lemma handler_json_throws:
  "req_method req = ''GET'' \<Longrightarrow>
   truthy (query req ''username'') \<or> truthy (query req ''user_id'') \<Longrightarrow>
   fetch (kaito_request (kaitoUrl req)) = Resolves response \<Longrightarrow> ok response \<Longrightarrow>
   resp_json response = Inl e \<Longrightarrow>
   handler fetch req (res, w) =
     (Inr (), responded res 500 (Some (error_body ''Internal server error'')),
      w\<lparr>console := console w @ [[LStr ''Proxy error:'', LErr e]],
        network := network w @ [kaito_request (kaitoUrl req)]\<rparr>)"
  by (cases "truthy (query req ''username'')") (simp_all add: handler_defs)

lemma handler_200:
  "req_method req = ''GET'' \<Longrightarrow>
   truthy (query req ''username'') \<or> truthy (query req ''user_id'') \<Longrightarrow>
   fetch (kaito_request (kaitoUrl req)) = Resolves response \<Longrightarrow> ok response \<Longrightarrow>
   resp_json response = Inr data \<Longrightarrow>
   handler fetch req (res, w) =
     (Inr (), responded res 200 (Some data),
      w\<lparr>network := network w @ [kaito_request (kaitoUrl req)]\<rparr>)"
  by (cases "truthy (query req ''username'')") (simp_all add: handler_defs)

lemma sent_responded:
  "sent (responded res code b) =
     sent res @ [\<lparr>r_status = code, r_headers = with_cors (headers res), r_body = b\<rparr>]"
  by (simp add: responded_def)

lemma try_block_fetch_cong:
  "fetch1 (kaito_request (kaitoUrl req)) = fetch2 (kaito_request (kaitoUrl req)) \<Longrightarrow>
   try_block fetch1 req s = try_block fetch2 req s"
  by (cases s) (simp add: try_block_def Let_def)

lemma handler_fetch_cong:
  "fetch1 (kaito_request (kaitoUrl req)) = fetch2 (kaito_request (kaitoUrl req)) \<Longrightarrow>
   handler fetch1 req s = handler fetch2 req s"
  using try_block_fetch_cong [of fetch1 req fetch2]
  by (cases s) (simp add: handler_def Let_def)

lemma handler_responds:
  obtains code b where
    "req_method req = ''GET'' \<longrightarrow> b \<noteq> None"
    "code = 200 \<or> code = 400 \<or> code = 405 \<or> code = 500 \<or> code = 502"
    "\<And>res w. \<exists>w'. handler fetch req (res, w) = (Inr (), responded res code b, w')"
proof (cases "req_method req = ''OPTIONS''")
  case True
  show thesis
    by (rule that [of None 200]) (simp_all add: True handler_OPTIONS)
next
  case not_options: False
  show thesis
  proof (cases "req_method req = ''GET''")
    case False
    show thesis
      by (rule that [of "Some (error_body ''Method not allowed'')" 405])
        (simp_all add: False not_options handler_not_GET)
  next
    case get: True
    show thesis
    proof (cases "truthy (query req ''username'') \<or> truthy (query req ''user_id'')")
      case False
      show thesis
        by (rule that [of "Some (error_body ''username or user_id required'')" 400])
          (use False in \<open>simp_all add: get handler_400\<close>)
    next
      case given: True
      show thesis
      proof (cases "fetch (kaito_request (kaitoUrl req))")
        case (Rejects e)
        note h = handler_rejects [where fetch = fetch and e = e, OF get given Rejects]
        show thesis
          by (rule that [of "Some (error_body ''Internal server error'')" 500])
            (simp_all add: h)
      next
        case (Resolves response)
        show thesis
        proof (cases "ok response")
          case False
          note h = handler_502 [where fetch = fetch and response = response,
              OF get given Resolves False]
          show thesis
            by (rule that [of "Some (error_body ''Upstream error'')" 502]) (simp_all add: h)
        next
          case True
          show thesis
          proof (cases "resp_json response")
            case (Inl e)
            note h = handler_json_throws [where fetch = fetch and response = response,
                OF get given Resolves True Inl]
            show thesis
              by (rule that [of "Some (error_body ''Internal server error'')" 500])
                (simp_all add: h)
          next
            case (Inr data)
            note h = handler_200 [where fetch = fetch and response = response,
                OF get given Resolves True Inr]
            show thesis
              by (rule that [of "Some data" 200]) (simp_all add: h)
          qed
        qed
      qed
    qed
  qed
qed

lemma handler_network:
  assumes get: "req_method req = ''GET''"
    and given: "truthy (query req ''username'') \<or> truthy (query req ''user_id'')"
  shows "network (snd (snd (handler fetch req (res, w))))
           = network w @ [kaito_request (kaitoUrl req)]"
proof (cases "fetch (kaito_request (kaitoUrl req))")
  case (Rejects e)
  show ?thesis
    by (simp add: handler_rejects [where fetch = fetch and e = e, OF get given Rejects])
next
  case (Resolves response)
  show ?thesis
  proof (cases "ok response")
    case False
    show ?thesis
      by (simp add: handler_502 [where fetch = fetch and response = response,
            OF get given Resolves False])
  next
    case True
    show ?thesis
    proof (cases "resp_json response")
      case (Inl e)
      show ?thesis
        by (simp add: handler_json_throws [where fetch = fetch and response = response,
              OF get given Resolves True Inl])
    next
      case (Inr data)
      show ?thesis
        by (simp add: handler_200 [where fetch = fetch and response = response,
              OF get given Resolves True Inr])
    qed
  qed
qed

lemma try_block_throws:
  assumes "fst (try_block fetch req s) = Inl e"
  shows "(truthy (query req ''username'') \<or> truthy (query req ''user_id'')) \<and>
         (fetch (kaito_request (kaitoUrl req)) = Rejects e \<or>
          (\<exists>response. fetch (kaito_request (kaitoUrl req)) = Resolves response \<and>
             ok response \<and> resp_json response = Inl e))"
  using assms
  by (cases s)
    (auto simp add: try_block_def Let_def split: if_splits fetch_outcome.splits sum.splits)

lemma try_block_throws_if:
  assumes "truthy (query req ''username'') \<or> truthy (query req ''user_id'')"
    and "fetch (kaito_request (kaitoUrl req)) = Rejects e \<or>
         (fetch (kaito_request (kaitoUrl req)) = Resolves response \<and>
            ok response \<and> resp_json response = Inl e)"
  shows "fst (try_block fetch req s) = Inl e"
  using assms by (cases s) (auto simp add: try_block_def Let_def)

lemma queryParams_cong:
  "query req1 ''username'' = query req2 ''username'' \<Longrightarrow>
   query req1 ''user_id'' = query req2 ''user_id'' \<Longrightarrow>
   queryParams req1 = queryParams req2"
  by (simp add: queryParams_def)

lemma handler_req_cong:
  assumes "req_method req1 = req_method req2"
    and "query req1 ''username'' = query req2 ''username''"
    and "query req1 ''user_id'' = query req2 ''user_id''"
  shows "handler fetch req1 s = handler fetch req2 s"
  using assms queryParams_cong [OF assms(2,3)]
  by (cases s) (simp add: handler_def try_block_def kaitoUrl_def Let_def)

lemma urlencode_names:
  "urlencode ''username'' = ''username''" "urlencode ''user_id'' = ''user_id''"
  by (simp_all add: urlencode_def urlencode_byte_def unreserved_def is_digit_def is_upper_def
      is_lower_def)

lemma set_supplied:
  "set (supplied req) =
     {(k, v). (k = ''username'' \<or> k = ''user_id'') \<and> query req k = Some v \<and> v \<noteq> []}"
  by (cases "query req ''username''"; cases "query req ''user_id''")
    (auto simp add: supplied_def)

lemma kaitoUrl_supplied:
  "kaitoUrl req = ''https://api.kaito.ai/api/v1/yaps?'' @ toString (supplied req)"
  by (simp add: kaitoUrl_def queryParams_supplied)

section \<open>The claims\<close>




text \<open>
  C2. A GET request with at least one parameter supplied makes exactly one outbound
  call. The parameters a receiver reads from the query string of its URL are exactly
  the supplied ones: the recognised keys whose value is a non-empty string, each with
  that value, and no others. With \<^verbatim>\<open>username\<close> alone the query string is
  \<^verbatim>\<open>username=<value>\<close> and reads back as that one pair, with \<^verbatim>\<open>user_id\<close> alone
  likewise, with both it is \<^verbatim>\<open>username=<value>&user_id=<value>\<close> and reads back as
  the two pairs; \<^verbatim>\<open><value>\<close> is the value in its form-urlencoded spelling, which for a
  value of letters, digits and \<^verbatim>\<open>* - . _\<close> is the value as it is. An absent or empty
  parameter does not appear.
\<close>

theorem c2_outbound_query_parameters:
  assumes "req_method req = ''GET''"
    and "truthy (query req ''username'') \<or> truthy (query req ''user_id'')"
  shows "case handler fetch req (res, w) of (out, res', w') \<Rightarrow>
           (\<exists>rq. network w' = network w @ [rq] \<and>
              parse_urlencoded (url_query (url rq)) = supplied req \<and>
              set (parse_urlencoded (url_query (url rq))) =
                {(k, v). (k = ''username'' \<or> k = ''user_id'') \<and> query req k = Some v \<and> v \<noteq> []} \<and>
              (query req ''username'' = Some u \<and> u \<noteq> [] \<and> \<not> truthy (query req ''user_id'') \<longrightarrow>
                 parse_urlencoded (url_query (url rq)) = [(''username'', u)] \<and>
                 url rq = ''https://api.kaito.ai/api/v1/yaps?username='' @ urlencode u \<and>
                 (set u \<subseteq> set plain_bytes \<longrightarrow>
                    url rq = ''https://api.kaito.ai/api/v1/yaps?username='' @ u)) \<and>
              (\<not> truthy (query req ''username'') \<and> query req ''user_id'' = Some i \<and> i \<noteq> [] \<longrightarrow>
                 parse_urlencoded (url_query (url rq)) = [(''user_id'', i)] \<and>
                 url rq = ''https://api.kaito.ai/api/v1/yaps?user_id='' @ urlencode i \<and>
                 (set i \<subseteq> set plain_bytes \<longrightarrow>
                    url rq = ''https://api.kaito.ai/api/v1/yaps?user_id='' @ i)) \<and>
              (query req ''username'' = Some u \<and> u \<noteq> [] \<and>
               query req ''user_id'' = Some i \<and> i \<noteq> [] \<longrightarrow>
                 parse_urlencoded (url_query (url rq)) = [(''username'', u), (''user_id'', i)] \<and>
                 url rq = ''https://api.kaito.ai/api/v1/yaps?username='' @ urlencode u
                            @ ''&user_id='' @ urlencode i \<and>
                 (set u \<subseteq> set plain_bytes \<and> set i \<subseteq> set plain_bytes \<longrightarrow>
                    url rq = ''https://api.kaito.ai/api/v1/yaps?username='' @ u
                               @ ''&user_id='' @ i)))"
proof -
  let ?rq = "kaito_request (kaitoUrl req)"
  have net: "network (snd (snd (handler fetch req (res, w)))) = network w @ [?rq]"
    by (rule handler_network [OF assms])
  have url_rq: "url ?rq = kaitoUrl req"
    by (simp add: kaito_request_def)
  have round_trip: "parse_urlencoded (url_query (url ?rq)) = supplied req"
    by (simp only: url_rq) (simp add: url_query_kaitoUrl parse_urlencoded_toString queryParams_supplied)
  have params: "set (parse_urlencoded (url_query (url ?rq))) =
      {(k, v). (k = ''username'' \<or> k = ''user_id'') \<and> query req k = Some v \<and> v \<noteq> []}"
    by (simp only: round_trip set_supplied)
  have only_u:
    "query req ''username'' = Some u \<and> u \<noteq> [] \<and> \<not> truthy (query req ''user_id'') \<longrightarrow>
       parse_urlencoded (url_query (url ?rq)) = [(''username'', u)] \<and>
       url ?rq = ''https://api.kaito.ai/api/v1/yaps?username='' @ urlencode u \<and>
       (set u \<subseteq> set plain_bytes \<longrightarrow>
          url ?rq = ''https://api.kaito.ai/api/v1/yaps?username='' @ u)"
  proof (intro impI)
    assume a: "query req ''username'' = Some u \<and> u \<noteq> [] \<and> \<not> truthy (query req ''user_id'')"
    then have s: "supplied req = [(''username'', u)]"
      by (cases "query req ''user_id''") (simp_all add: supplied_def)
    have k: "url ?rq = ''https://api.kaito.ai/api/v1/yaps?username='' @ urlencode u"
      by (simp only: url_rq) (simp add: kaitoUrl_supplied s serialize_pair_def urlencode_names)
    have p: "parse_urlencoded (url_query (url ?rq)) = [(''username'', u)]"
      by (simp only: round_trip s)
    have pl: "url ?rq = ''https://api.kaito.ai/api/v1/yaps?username='' @ u" if "set u \<subseteq> set plain_bytes"
      by (simp only: k urlencode_plain [OF that])
    show "parse_urlencoded (url_query (url ?rq)) = [(''username'', u)] \<and>
       url ?rq = ''https://api.kaito.ai/api/v1/yaps?username='' @ urlencode u \<and>
       (set u \<subseteq> set plain_bytes \<longrightarrow>
          url ?rq = ''https://api.kaito.ai/api/v1/yaps?username='' @ u)"
      by (intro conjI impI; (rule p | rule k | erule pl))
  qed
  have only_i:
    "\<not> truthy (query req ''username'') \<and> query req ''user_id'' = Some i \<and> i \<noteq> [] \<longrightarrow>
       parse_urlencoded (url_query (url ?rq)) = [(''user_id'', i)] \<and>
       url ?rq = ''https://api.kaito.ai/api/v1/yaps?user_id='' @ urlencode i \<and>
       (set i \<subseteq> set plain_bytes \<longrightarrow>
          url ?rq = ''https://api.kaito.ai/api/v1/yaps?user_id='' @ i)"
  proof (intro impI)
    assume a: "\<not> truthy (query req ''username'') \<and> query req ''user_id'' = Some i \<and> i \<noteq> []"
    then have s: "supplied req = [(''user_id'', i)]"
      by (cases "query req ''username''") (simp_all add: supplied_def)
    have k: "url ?rq = ''https://api.kaito.ai/api/v1/yaps?user_id='' @ urlencode i"
      by (simp only: url_rq) (simp add: kaitoUrl_supplied s serialize_pair_def urlencode_names)
    have p: "parse_urlencoded (url_query (url ?rq)) = [(''user_id'', i)]"
      by (simp only: round_trip s)
    have pl: "url ?rq = ''https://api.kaito.ai/api/v1/yaps?user_id='' @ i" if "set i \<subseteq> set plain_bytes"
      by (simp only: k urlencode_plain [OF that])
    show "parse_urlencoded (url_query (url ?rq)) = [(''user_id'', i)] \<and>
       url ?rq = ''https://api.kaito.ai/api/v1/yaps?user_id='' @ urlencode i \<and>
       (set i \<subseteq> set plain_bytes \<longrightarrow>
          url ?rq = ''https://api.kaito.ai/api/v1/yaps?user_id='' @ i)"
      by (intro conjI impI; (rule p | rule k | erule pl))
  qed
  have both:
    "query req ''username'' = Some u \<and> u \<noteq> [] \<and> query req ''user_id'' = Some i \<and> i \<noteq> [] \<longrightarrow>
       parse_urlencoded (url_query (url ?rq)) = [(''username'', u), (''user_id'', i)] \<and>
       url ?rq = ''https://api.kaito.ai/api/v1/yaps?username='' @ urlencode u
                  @ ''&user_id='' @ urlencode i \<and>
       (set u \<subseteq> set plain_bytes \<and> set i \<subseteq> set plain_bytes \<longrightarrow>
          url ?rq = ''https://api.kaito.ai/api/v1/yaps?username='' @ u @ ''&user_id='' @ i)"
  proof (intro impI)
    assume a: "query req ''username'' = Some u \<and> u \<noteq> [] \<and>
               query req ''user_id'' = Some i \<and> i \<noteq> []"
    then have s: "supplied req = [(''username'', u), (''user_id'', i)]"
      by (simp add: supplied_def)
    have k: "url ?rq = ''https://api.kaito.ai/api/v1/yaps?username='' @ urlencode u
                         @ ''&user_id='' @ urlencode i"
      by (simp only: url_rq) (simp add: kaitoUrl_supplied s serialize_pair_def urlencode_names)
    have p: "parse_urlencoded (url_query (url ?rq)) = [(''username'', u), (''user_id'', i)]"
      by (simp only: round_trip s)
    have pl: "url ?rq = ''https://api.kaito.ai/api/v1/yaps?username='' @ u @ ''&user_id='' @ i"
      if "set u \<subseteq> set plain_bytes \<and> set i \<subseteq> set plain_bytes"
      using that by (simp only: k urlencode_plain)
    show "parse_urlencoded (url_query (url ?rq)) = [(''username'', u), (''user_id'', i)] \<and>
       url ?rq = ''https://api.kaito.ai/api/v1/yaps?username='' @ urlencode u
                  @ ''&user_id='' @ urlencode i \<and>
       (set u \<subseteq> set plain_bytes \<and> set i \<subseteq> set plain_bytes \<longrightarrow>
          url ?rq = ''https://api.kaito.ai/api/v1/yaps?username='' @ u @ ''&user_id='' @ i)"
      by (intro conjI impI; (rule p | rule k | erule pl))
  qed
  show ?thesis
    by (simp only: case_prod_unfold, rule exI [of _ "kaito_request (kaitoUrl req)"])
      (intro conjI net round_trip params [unfolded case_prod_unfold] only_u only_i both)
qed

theorem c2_outbound_query_parameters_witness:
  "req_method \<lparr>req_method = ''GET'',
      query = [''username'' \<mapsto> ''a&b=c#d e'', ''user_id'' \<mapsto> []]\<rparr> = ''GET'' \<and>
   truthy (query \<lparr>req_method = ''GET'',
      query = [''username'' \<mapsto> ''a&b=c#d e'', ''user_id'' \<mapsto> []]\<rparr> ''username'') \<and>
   \<not> truthy (query \<lparr>req_method = ''GET'',
      query = [''username'' \<mapsto> ''a&b=c#d e'', ''user_id'' \<mapsto> []]\<rparr> ''user_id'') \<and>
   (case handler (\<lambda>rq. Rejects (JsError ''TypeError'' ''fetch failed'') :: int fetch_outcome)
           \<lparr>req_method = ''GET'',
              query = [''username'' \<mapsto> ''a&b=c#d e'', ''user_id'' \<mapsto> []]\<rparr>
           (new_res, \<lparr>console = [], network = []\<rparr>) of
      (out, res', w') \<Rightarrow>
        \<exists>rq. network w' = [rq] \<and>
          parse_urlencoded (url_query (url rq)) = [(''username'', ''a&b=c#d e'')] \<and>
          url rq = ''https://api.kaito.ai/api/v1/yaps?username=a%26b%3Dc%23d+e'') \<and>
   set ''VitalikButerin'' \<subseteq> set plain_bytes \<and> set ''295218901'' \<subseteq> set plain_bytes \<and>
   (case handler (\<lambda>rq. Rejects (JsError ''TypeError'' ''fetch failed'') :: int fetch_outcome)
           \<lparr>req_method = ''GET'',
              query = [''username'' \<mapsto> ''VitalikButerin'', ''user_id'' \<mapsto> ''295218901'']\<rparr>
           (new_res, \<lparr>console = [], network = []\<rparr>) of
      (out, res', w') \<Rightarrow>
        \<exists>rq. network w' = [rq] \<and>
          parse_urlencoded (url_query (url rq))
            = [(''username'', ''VitalikButerin''), (''user_id'', ''295218901'')] \<and>
          url rq = ''https://api.kaito.ai/api/v1/yaps?username=VitalikButerin&user_id=295218901'')"
proof -
  have enc: "urlencode ''a&b=c#d e'' = ''a%26b%3Dc%23d+e''"
    by code_simp
  have plain: "set ''VitalikButerin'' \<subseteq> set plain_bytes" "set ''295218901'' \<subseteq> set plain_bytes"
    by (simp_all add: plain_bytes_def)
  have one: "case handler (\<lambda>rq. Rejects (JsError ''TypeError'' ''fetch failed'') :: int fetch_outcome)
           \<lparr>req_method = ''GET'',
              query = [''username'' \<mapsto> ''a&b=c#d e'', ''user_id'' \<mapsto> []]\<rparr>
           (new_res, \<lparr>console = [], network = []\<rparr>) of
      (out, res', w') \<Rightarrow>
        \<exists>rq. network w' = [rq] \<and>
          parse_urlencoded (url_query (url rq)) = [(''username'', ''a&b=c#d e'')] \<and>
          url rq = ''https://api.kaito.ai/api/v1/yaps?username=a%26b%3Dc%23d+e''"
    using c2_outbound_query_parameters
      [where req = "\<lparr>req_method = ''GET'',
              query = [''username'' \<mapsto> ''a&b=c#d e'', ''user_id'' \<mapsto> []]\<rparr>"
         and fetch = "\<lambda>rq. Rejects (JsError ''TypeError'' ''fetch failed'') :: int fetch_outcome"
         and res = new_res and w = "\<lparr>console = [], network = []\<rparr>"
         and u = "''a&b=c#d e''" and i = "[]"]
    by (simp add: case_prod_unfold enc) blast
  have two: "case handler (\<lambda>rq. Rejects (JsError ''TypeError'' ''fetch failed'') :: int fetch_outcome)
           \<lparr>req_method = ''GET'',
              query = [''username'' \<mapsto> ''VitalikButerin'', ''user_id'' \<mapsto> ''295218901'']\<rparr>
           (new_res, \<lparr>console = [], network = []\<rparr>) of
      (out, res', w') \<Rightarrow>
        \<exists>rq. network w' = [rq] \<and>
          parse_urlencoded (url_query (url rq))
            = [(''username'', ''VitalikButerin''), (''user_id'', ''295218901'')] \<and>
          url rq = ''https://api.kaito.ai/api/v1/yaps?username=VitalikButerin&user_id=295218901''"
    using c2_outbound_query_parameters
      [where req = "\<lparr>req_method = ''GET'',
              query = [''username'' \<mapsto> ''VitalikButerin'', ''user_id'' \<mapsto> ''295218901'']\<rparr>"
         and fetch = "\<lambda>rq. Rejects (JsError ''TypeError'' ''fetch failed'') :: int fetch_outcome"
         and res = new_res and w = "\<lparr>console = [], network = []\<rparr>"
         and u = "''VitalikButerin''" and i = "''295218901''"] plain
    by (simp add: case_prod_unfold) blast
  show ?thesis
    using one two plain by simp
qed

text \<open>
  C3. A GET request in which both \<^verbatim>\<open>username\<close> and \<^verbatim>\<open>user_id\<close> are absent or empty
  is answered with exactly one response, status 400 and body
  \<^verbatim>\<open>{"error":"username or user_id required"}\<close>, and makes no outbound call: the
  world is left as it was.
\<close>

theorem c3_missing_parameters:
  assumes "req_method req = ''GET''"
    and "\<not> truthy (query req ''username'')" and "\<not> truthy (query req ''user_id'')"
  shows "case handler fetch req (res, w) of (out, res', w') \<Rightarrow>
           out = Inr () \<and>
           sent res' = sent res @ [\<lparr>r_status = 400, r_headers = with_cors (headers res),
                                     r_body = Some (JObj [(''error'', JStr ''username or user_id required'')])\<rparr>] \<and>
           network w' = network w \<and> w' = w"
  using assms by (simp add: handler_400 sent_responded error_body_def)

theorem c3_missing_parameters_witness:
  "req_method \<lparr>req_method = ''GET'', query = [''username'' \<mapsto> '''']\<rparr> = ''GET'' \<and>
   \<not> truthy (query \<lparr>req_method = ''GET'', query = [''username'' \<mapsto> '''']\<rparr> ''username'') \<and>
   \<not> truthy (query \<lparr>req_method = ''GET'', query = [''username'' \<mapsto> '''']\<rparr> ''user_id'') \<and>
   (case handler (\<lambda>rq. Rejects (JsError ''TypeError'' ''fetch failed'') :: int fetch_outcome)
           \<lparr>req_method = ''GET'', query = [''username'' \<mapsto> '''']\<rparr>
           (new_res, \<lparr>console = [], network = []\<rparr>) of
      (out, res', w') \<Rightarrow>
        out = Inr () \<and>
        sent res' = [\<lparr>r_status = 400, r_headers = with_cors Map.empty,
                       r_body = Some (JObj [(''error'', JStr ''username or user_id required'')])\<rparr>] \<and>
        network w' = [] \<and> w' = \<lparr>console = [], network = []\<rparr>)"
  using c3_missing_parameters
    [where req = "\<lparr>req_method = ''GET'', query = [''username'' \<mapsto> '''']\<rparr>"
       and fetch = "\<lambda>rq. Rejects (JsError ''TypeError'' ''fetch failed'') :: int fetch_outcome"
       and res = new_res and w = "\<lparr>console = [], network = []\<rparr>"]
  by (simp add: new_res_def)

text \<open>
  C4. A GET request with at least one parameter supplied, whose upstream call resolves
  with a status outside 200 to 299, is answered with exactly one response, status 502
  and body \<^verbatim>\<open>{"error":"Upstream error"}\<close>. Any other upstream that resolves that call
  with a failure status, whatever its status, status text and body, leaves the same
  response object: nothing of the upstream's answer reaches the caller.
\<close>

theorem c4_upstream_error:
  assumes "req_method req = ''GET''"
    and "truthy (query req ''username'') \<or> truthy (query req ''user_id'')"
    and "fetch (kaito_request (kaitoUrl req)) = Resolves response"
    and "\<not> ok response"
  shows "case handler fetch req (res, w) of (out, res', w') \<Rightarrow>
           out = Inr () \<and>
           sent res' = sent res @ [\<lparr>r_status = 502, r_headers = with_cors (headers res),
                                     r_body = Some (JObj [(''error'', JStr ''Upstream error'')])\<rparr>] \<and>
           (fetch' (kaito_request (kaitoUrl req)) = Resolves response' \<and> \<not> ok response'
              \<longrightarrow> fst (snd (handler fetch' req (res, w))) = res')"
proof -
  have other: "fst (snd (handler fetch' req (res, w)))
                 = responded res 502 (Some (error_body ''Upstream error''))"
    if "fetch' (kaito_request (kaitoUrl req)) = Resolves response'" and "\<not> ok response'"
    by (simp add: handler_502 [where fetch = fetch' and response = response',
          OF assms(1,2) that])
  show ?thesis
    using other
    by (simp add: handler_502 [where fetch = fetch and response = response, OF assms]
        sent_responded error_body_def)
qed

theorem c4_upstream_error_witness:
  "\<not> ok \<lparr>resp_status = 404, resp_statusText = ''Not Found'',
         resp_json = Inr (JObj [(''detail'', JStr ''no such user'')]) :: js_error + int json_value\<rparr> \<and>
   \<not> ok \<lparr>resp_status = 503, resp_statusText = ''Service Unavailable'',
         resp_json = Inl (JsError ''SyntaxError'' ''Unexpected token'') :: js_error + int json_value\<rparr> \<and>
   (case handler
           (\<lambda>rq. Resolves \<lparr>resp_status = 404, resp_statusText = ''Not Found'',
                              resp_json = Inr (JObj [(''detail'', JStr ''no such user'')])\<rparr>)
           \<lparr>req_method = ''GET'', query = [''user_id'' \<mapsto> ''295218901'']\<rparr>
           (new_res, \<lparr>console = [], network = []\<rparr>) of
      (out, res', w') \<Rightarrow>
        out = Inr () \<and>
        sent res' = [\<lparr>r_status = 502, r_headers = with_cors Map.empty,
                       r_body = Some (JObj [(''error'', JStr ''Upstream error'')])\<rparr>] \<and>
        fst (snd (handler
           (\<lambda>rq. Resolves \<lparr>resp_status = 503, resp_statusText = ''Service Unavailable'',
                              resp_json = Inl (JsError ''SyntaxError'' ''Unexpected token'')
                                :: js_error + int json_value\<rparr>)
           \<lparr>req_method = ''GET'', query = [''user_id'' \<mapsto> ''295218901'']\<rparr>
           (new_res, \<lparr>console = [], network = []\<rparr>))) = res')"
  using c4_upstream_error
    [where req = "\<lparr>req_method = ''GET'', query = [''user_id'' \<mapsto> ''295218901'']\<rparr>"
       and fetch = "\<lambda>rq. Resolves \<lparr>resp_status = 404, resp_statusText = ''Not Found'',
                              resp_json = Inr (JObj [(''detail'', JStr ''no such user'')])
                                :: js_error + int json_value\<rparr>"
       and response = "\<lparr>resp_status = 404, resp_statusText = ''Not Found'',
                              resp_json = Inr (JObj [(''detail'', JStr ''no such user'')])
                                :: js_error + int json_value\<rparr>"
       and fetch' = "\<lambda>rq. Resolves \<lparr>resp_status = 503, resp_statusText = ''Service Unavailable'',
                              resp_json = Inl (JsError ''SyntaxError'' ''Unexpected token'')
                                :: js_error + int json_value\<rparr>"
       and response' = "\<lparr>resp_status = 503, resp_statusText = ''Service Unavailable'',
                              resp_json = Inl (JsError ''SyntaxError'' ''Unexpected token'')
                                :: js_error + int json_value\<rparr>"
       and res = new_res and w = "\<lparr>console = [], network = []\<rparr>"]
  by (simp add: ok_def new_res_def)

text \<open>
  C5. For every GET request and every way the outbound call settles, the handler
  returns normally (no error leaves it) after sending exactly one response, whose body
  is a JSON value; and whenever an error is thrown inside the \<^verbatim>\<open>try\<close> block, that
  response has status 500 and body \<^verbatim>\<open>{"error":"Internal server error"}\<close>. An error
  is thrown there when the outbound call rejects and when the body of a successful
  response is not JSON.
\<close>

theorem c5_errors_become_500:
  assumes "req_method req = ''GET''"
  shows "case handler fetch req (res, w) of (out, res', w') \<Rightarrow>
           out = Inr () \<and>
           (\<exists>code v. sent res' = sent res @ [\<lparr>r_status = code, r_headers = with_cors (headers res),
                                                r_body = Some v\<rparr>]) \<and>
           (fst (try_block fetch req s) = Inl e \<longrightarrow>
              sent res' = sent res @ [\<lparr>r_status = 500, r_headers = with_cors (headers res),
                 r_body = Some (JObj [(''error'', JStr ''Internal server error'')])\<rparr>]) \<and>
           ((truthy (query req ''username'') \<or> truthy (query req ''user_id'')) \<and>
            (fetch (kaito_request (kaitoUrl req)) = Rejects e \<or>
             (fetch (kaito_request (kaitoUrl req)) = Resolves response \<and>
                ok response \<and> resp_json response = Inl e))
              \<longrightarrow> fst (try_block fetch req s) = Inl e)"
proof (rule handler_responds [of req fetch])
  fix code b
  assume b: "req_method req = ''GET'' \<longrightarrow> b \<noteq> None"
    and h: "\<And>res w. \<exists>w'. handler fetch req (res, w) = (Inr (), responded res code b, w')"
  obtain v where v: "b = Some v"
    using b assms by auto
  obtain w' where w': "handler fetch req (res, w) = (Inr (), responded res code (Some v), w')"
    using h [of res w] v by auto
  have thrown: "sent (fst (snd (handler fetch req (res, w)))) =
      sent res @ [\<lparr>r_status = 500, r_headers = with_cors (headers res),
         r_body = Some (JObj [(''error'', JStr ''Internal server error'')])\<rparr>]"
    if t: "fst (try_block fetch req s) = Inl e"
  proof -
    from try_block_throws [OF t]
    have given: "truthy (query req ''username'') \<or> truthy (query req ''user_id'')"
      and or: "fetch (kaito_request (kaitoUrl req)) = Rejects e \<or>
          (\<exists>response. fetch (kaito_request (kaitoUrl req)) = Resolves response \<and>
             ok response \<and> resp_json response = Inl e)"
      by blast+
    from or show ?thesis
    proof
      assume r: "fetch (kaito_request (kaitoUrl req)) = Rejects e"
      show ?thesis
        by (simp add: handler_rejects [where fetch = fetch and e = e, OF assms given r]
            sent_responded error_body_def)
    next
      assume "\<exists>response. fetch (kaito_request (kaitoUrl req)) = Resolves response \<and>
             ok response \<and> resp_json response = Inl e"
      then obtain response where r: "fetch (kaito_request (kaitoUrl req)) = Resolves response"
        and k: "ok response" and j: "resp_json response = Inl e"
        by blast
      show ?thesis
        by (simp add: handler_json_throws [where fetch = fetch and response = response,
              OF assms given r k j] sent_responded error_body_def)
    qed
  qed
  show ?thesis
    using thrown try_block_throws_if [of req fetch e response s]
    by (simp add: w' sent_responded)
qed

theorem c5_errors_become_500_witness:
  "req_method \<lparr>req_method = ''GET'', query = [''username'' \<mapsto> ''VitalikButerin'']\<rparr> = ''GET'' \<and>
   fst (try_block (\<lambda>rq. Rejects (JsError ''TypeError'' ''fetch failed'') :: int fetch_outcome)
          \<lparr>req_method = ''GET'', query = [''username'' \<mapsto> ''VitalikButerin'']\<rparr>
          (new_res, \<lparr>console = [], network = []\<rparr>))
     = Inl (JsError ''TypeError'' ''fetch failed'') \<and>
   (case handler (\<lambda>rq. Rejects (JsError ''TypeError'' ''fetch failed'') :: int fetch_outcome)
           \<lparr>req_method = ''GET'', query = [''username'' \<mapsto> ''VitalikButerin'']\<rparr>
           (new_res, \<lparr>console = [], network = []\<rparr>) of
      (out, res', w') \<Rightarrow>
        out = Inr () \<and>
        sent res' = [\<lparr>r_status = 500, r_headers = with_cors Map.empty,
                       r_body = Some (JObj [(''error'', JStr ''Internal server error'')])\<rparr>])"
proof -
  let ?req = "\<lparr>req_method = ''GET'', query = [''username'' \<mapsto> ''VitalikButerin'']\<rparr>"
  let ?fetch = "\<lambda>rq. Rejects (JsError ''TypeError'' ''fetch failed'') :: int fetch_outcome"
  have thrown: "fst (try_block ?fetch ?req (new_res, \<lparr>console = [], network = []\<rparr>))
                  = Inl (JsError ''TypeError'' ''fetch failed'')"
    by (simp add: try_block_def Let_def)
  show ?thesis
    using c5_errors_become_500
      [where req = ?req and fetch = ?fetch and res = new_res
         and w = "\<lparr>console = [], network = []\<rparr>"
         and s = "(new_res, \<lparr>console = [], network = []\<rparr>)"
         and e = "JsError ''TypeError'' ''fetch failed''"
         and response = "\<lparr>resp_status = 200, resp_statusText = ''OK'',
                           resp_json = Inl (JsError ''SyntaxError'' ''Unexpected token'')\<rparr>"]
      thrown
    by (simp add: new_res_def case_prod_unfold)
qed

text \<open>
  C6. Every invocation, whatever the request and the upstream, sends exactly one
  response, with one of the statuses 200, 400, 405, 500, 502, and that response carries
  \<^verbatim>\<open>Access-Control-Allow-Origin: *\<close>, \<^verbatim>\<open>Access-Control-Allow-Methods: GET\<close> and
  \<^verbatim>\<open>Access-Control-Allow-Headers: Content-Type\<close>.
\<close>

theorem c6_cors_headers_on_every_path:
  "case handler fetch req (res, w) of (out, res', w') \<Rightarrow>
     \<exists>resp. sent res' = sent res @ [resp] \<and>
       r_headers resp ''Access-Control-Allow-Origin'' = Some ''*'' \<and>
       r_headers resp ''Access-Control-Allow-Methods'' = Some ''GET'' \<and>
       r_headers resp ''Access-Control-Allow-Headers'' = Some ''Content-Type'' \<and>
       (r_status resp = 200 \<or> r_status resp = 400 \<or> r_status resp = 405 \<or>
        r_status resp = 500 \<or> r_status resp = 502)"
proof (rule handler_responds [of req fetch])
  fix code b
  assume c: "code = 200 \<or> code = 400 \<or> code = 405 \<or> code = 500 \<or> code = 502"
    and h: "\<And>res w. \<exists>w'. handler fetch req (res, w) = (Inr (), responded res code b, w')"
  obtain w' where w': "handler fetch req (res, w) = (Inr (), responded res code b, w')"
    using h [of res w] by auto
  show ?thesis
    using c by (simp add: w' sent_responded with_cors_def)
qed

theorem c6_cors_headers_on_every_path_witness:
  "(case handler (\<lambda>rq. Rejects (JsError ''TypeError'' ''fetch failed'') :: int fetch_outcome)
           \<lparr>req_method = ''DELETE'', query = Map.empty\<rparr>
           (new_res, \<lparr>console = [], network = []\<rparr>) of
      (out, res', w') \<Rightarrow>
        \<exists>resp. sent res' = [resp] \<and>
          r_headers resp ''Access-Control-Allow-Origin'' = Some ''*'' \<and>
          r_headers resp ''Access-Control-Allow-Methods'' = Some ''GET'' \<and>
          r_headers resp ''Access-Control-Allow-Headers'' = Some ''Content-Type'' \<and>
          (r_status resp = 200 \<or> r_status resp = 400 \<or> r_status resp = 405 \<or>
           r_status resp = 500 \<or> r_status resp = 502))"
  using c6_cors_headers_on_every_path
    [where req = "\<lparr>req_method = ''DELETE'', query = Map.empty\<rparr>"
       and fetch = "\<lambda>rq. Rejects (JsError ''TypeError'' ''fetch failed'') :: int fetch_outcome"
       and res = new_res and w = "\<lparr>console = [], network = []\<rparr>"]
  by (simp add: new_res_def)

text \<open>
  C7. A request with method \<^verbatim>\<open>OPTIONS\<close> is answered with exactly one response,
  status 200 and an empty body; the world is left as it was (no outbound call, no log
  line), and the outcome is the same for every query and every upstream.
\<close>

theorem c7_options_preflight:
  assumes "req_method req = ''OPTIONS''"
  shows "case handler fetch req (res, w) of (out, res', w') \<Rightarrow>
           out = Inr () \<and>
           sent res' = sent res @ [\<lparr>r_status = 200, r_headers = with_cors (headers res),
                                     r_body = None\<rparr>] \<and>
           w' = w \<and>
           handler fetch' (req\<lparr>query := q\<rparr>) (res, w) = (out, res', w')"
  using assms by (simp add: handler_OPTIONS sent_responded)

theorem c7_options_preflight_witness:
  "req_method \<lparr>req_method = ''OPTIONS'', query = [''username'' \<mapsto> ''VitalikButerin'']\<rparr> = ''OPTIONS'' \<and>
   (case handler (\<lambda>rq. Rejects (JsError ''TypeError'' ''fetch failed'') :: int fetch_outcome)
           \<lparr>req_method = ''OPTIONS'', query = [''username'' \<mapsto> ''VitalikButerin'']\<rparr>
           (new_res, \<lparr>console = [], network = []\<rparr>) of
      (out, res', w') \<Rightarrow>
        out = Inr () \<and>
        sent res' = [\<lparr>r_status = 200, r_headers = with_cors Map.empty, r_body = None\<rparr>] \<and>
        w' = \<lparr>console = [], network = []\<rparr> \<and>
        handler (\<lambda>rq. Resolves \<lparr>resp_status = 200, resp_statusText = ''OK'',
                                   resp_json = Inr (JNum 1)\<rparr>)
          \<lparr>req_method = ''OPTIONS'', query = Map.empty\<rparr>
          (new_res, \<lparr>console = [], network = []\<rparr>) = (out, res', w'))"
  using c7_options_preflight
    [where req = "\<lparr>req_method = ''OPTIONS'', query = [''username'' \<mapsto> ''VitalikButerin'']\<rparr>"
       and fetch = "\<lambda>rq. Rejects (JsError ''TypeError'' ''fetch failed'') :: int fetch_outcome"
       and res = new_res and w = "\<lparr>console = [], network = []\<rparr>"
       and fetch' = "\<lambda>rq. Resolves \<lparr>resp_status = 200, resp_statusText = ''OK'',
                                           resp_json = Inr (JNum 1)\<rparr>"
       and q = Map.empty]
  by (simp add: new_res_def)

text \<open>
  C8. A request whose method is neither \<^verbatim>\<open>GET\<close> nor \<^verbatim>\<open>OPTIONS\<close> is answered with
  exactly one response, status 405 and body \<^verbatim>\<open>{"error":"Method not allowed"}\<close>; the
  world is left as it was (no outbound call), and the outcome is the same for every
  query and every upstream.
\<close>

theorem c8_method_not_allowed:
  assumes "req_method req \<noteq> ''GET''" and "req_method req \<noteq> ''OPTIONS''"
  shows "case handler fetch req (res, w) of (out, res', w') \<Rightarrow>
           out = Inr () \<and>
           sent res' = sent res @ [\<lparr>r_status = 405, r_headers = with_cors (headers res),
                                     r_body = Some (JObj [(''error'', JStr ''Method not allowed'')])\<rparr>] \<and>
           w' = w \<and>
           handler fetch' (req\<lparr>query := q\<rparr>) (res, w) = (out, res', w')"
  using assms by (simp add: handler_not_GET sent_responded error_body_def)

theorem c8_method_not_allowed_witness:
  "req_method \<lparr>req_method = ''POST'', query = [''username'' \<mapsto> ''VitalikButerin'']\<rparr> \<noteq> ''GET'' \<and>
   req_method \<lparr>req_method = ''POST'', query = [''username'' \<mapsto> ''VitalikButerin'']\<rparr> \<noteq> ''OPTIONS'' \<and>
   (case handler (\<lambda>rq. Rejects (JsError ''TypeError'' ''fetch failed'') :: int fetch_outcome)
           \<lparr>req_method = ''POST'', query = [''username'' \<mapsto> ''VitalikButerin'']\<rparr>
           (new_res, \<lparr>console = [], network = []\<rparr>) of
      (out, res', w') \<Rightarrow>
        out = Inr () \<and>
        sent res' = [\<lparr>r_status = 405, r_headers = with_cors Map.empty,
                       r_body = Some (JObj [(''error'', JStr ''Method not allowed'')])\<rparr>] \<and>
        w' = \<lparr>console = [], network = []\<rparr> \<and>
        handler (\<lambda>rq. Resolves \<lparr>resp_status = 200, resp_statusText = ''OK'',
                                   resp_json = Inr (JNum 1)\<rparr>)
          \<lparr>req_method = ''POST'', query = Map.empty\<rparr>
          (new_res, \<lparr>console = [], network = []\<rparr>) = (out, res', w'))"
  using c8_method_not_allowed
    [where req = "\<lparr>req_method = ''POST'', query = [''username'' \<mapsto> ''VitalikButerin'']\<rparr>"
       and fetch = "\<lambda>rq. Rejects (JsError ''TypeError'' ''fetch failed'') :: int fetch_outcome"
       and res = new_res and w = "\<lparr>console = [], network = []\<rparr>"
       and fetch' = "\<lambda>rq. Resolves \<lparr>resp_status = 200, resp_statusText = ''OK'',
                                           resp_json = Inr (JNum 1)\<rparr>"
       and q = Map.empty]
  by (simp add: new_res_def)

text \<open>
  C9. Two invocations with the same method, the same \<^verbatim>\<open>username\<close> and \<^verbatim>\<open>user_id\<close>
  and an upstream that settles the outbound call in the same way end in the same way
  and send one response each, with the same status and the same body, from whatever
  response objects and whatever worlds (log lines and calls of earlier invocations)
  they start.
\<close>

theorem c9_deterministic:
  assumes "req_method req1 = req_method req2"
    and "query req1 ''username'' = query req2 ''username''"
    and "query req1 ''user_id'' = query req2 ''user_id''"
    and "fetch1 (kaito_request (kaitoUrl req1)) = fetch2 (kaito_request (kaitoUrl req1))"
  shows "case (handler fetch1 req1 (r1, w1), handler fetch2 req2 (r2, w2)) of
           ((o1, r1', w1'), (o2, r2', w2')) \<Rightarrow>
             o1 = o2 \<and>
             (\<exists>code b.
                sent r1' = sent r1 @ [\<lparr>r_status = code, r_headers = with_cors (headers r1),
                                         r_body = b\<rparr>] \<and>
                sent r2' = sent r2 @ [\<lparr>r_status = code, r_headers = with_cors (headers r2),
                                         r_body = b\<rparr>])"
proof (rule handler_responds [of req1 fetch1])
  fix code b
  assume h: "\<And>res w. \<exists>w'. handler fetch1 req1 (res, w) = (Inr (), responded res code b, w')"
  have same: "handler fetch2 req2 (r2, w2) = handler fetch1 req1 (r2, w2)"
    using handler_fetch_cong [where ?fetch1.0 = fetch1 and ?fetch2.0 = fetch2
        and req = req1 and s = "(r2, w2)"] assms(4)
      handler_req_cong [OF assms(1,2,3), of fetch2 "(r2, w2)"]
    by simp
  obtain w1' where a: "handler fetch1 req1 (r1, w1) = (Inr (), responded r1 code b, w1')"
    using h [of r1 w1] by auto
  obtain w2' where b: "handler fetch1 req1 (r2, w2) = (Inr (), responded r2 code b, w2')"
    using h [of r2 w2] by auto
  show ?thesis
    by (simp add: same a b sent_responded)
qed

theorem c9_deterministic_witness:
  "(case (handler (\<lambda>rq. Rejects (JsError ''TypeError'' ''fetch failed'') :: int fetch_outcome)
            \<lparr>req_method = ''GET'', query = [''username'' \<mapsto> ''VitalikButerin'']\<rparr>
            (new_res, \<lparr>console = [], network = []\<rparr>),
          handler (\<lambda>rq. Rejects (JsError ''TypeError'' ''fetch failed'') :: int fetch_outcome)
            \<lparr>req_method = ''GET'',
               query = [''username'' \<mapsto> ''VitalikButerin'', ''verbose'' \<mapsto> ''1'']\<rparr>
            (new_res\<lparr>statusCode := 404\<rparr>,
             \<lparr>console = [[LStr ''an earlier line'']], network = []\<rparr>)) of
      ((o1, r1', w1'), (o2, r2', w2')) \<Rightarrow>
        o1 = o2 \<and>
        (\<exists>code b.
           sent r1' = [\<lparr>r_status = code, r_headers = with_cors Map.empty, r_body = b\<rparr>] \<and>
           sent r2' = [\<lparr>r_status = code, r_headers = with_cors Map.empty, r_body = b\<rparr>]))"
  using c9_deterministic
    [where ?req1.0 = "\<lparr>req_method = ''GET'', query = [''username'' \<mapsto> ''VitalikButerin'']\<rparr>"
       and ?req2.0 = "\<lparr>req_method = ''GET'',
               query = [''username'' \<mapsto> ''VitalikButerin'', ''verbose'' \<mapsto> ''1'']\<rparr>"
       and ?fetch1.0 = "\<lambda>rq. Rejects (JsError ''TypeError'' ''fetch failed'') :: int fetch_outcome"
       and ?fetch2.0 = "\<lambda>rq. Rejects (JsError ''TypeError'' ''fetch failed'') :: int fetch_outcome"
       and ?r1.0 = new_res and ?w1.0 = "\<lparr>console = [], network = []\<rparr>"
       and ?r2.0 = "new_res\<lparr>statusCode := 404\<rparr>"
       and ?w2.0 = "\<lparr>console = [[LStr ''an earlier line'']], network = []\<rparr>"]
  by (simp add: new_res_def)

text \<open>
  C10. For a GET request with at least one parameter supplied, the URL of the outbound
  call is the fixed base followed by the \<^verbatim>\<open>URLSearchParams\<close> serialisation of the
  parameters built, and parsing the query component of that URL back gives exactly
  the supplied pairs, whatever bytes the values contain (\<^verbatim>\<open>&\<close>, \<^verbatim>\<open>=\<close> and \<^verbatim>\<open>#\<close>
  included).
\<close>

theorem c10_no_query_injection:
  assumes "req_method req = ''GET''"
    and "truthy (query req ''username'') \<or> truthy (query req ''user_id'')"
  shows "case handler fetch req (res, w) of (out, res', w') \<Rightarrow>
           \<exists>rq. network w' = network w @ [rq] \<and>
             url rq = ''https://api.kaito.ai/api/v1/yaps?'' @ toString (queryParams req) \<and>
             parse_urlencoded (url_query (url rq)) = supplied req"
proof -
  have net: "network (snd (snd (handler fetch req (res, w))))
               = network w @ [kaito_request (kaitoUrl req)]"
    by (rule handler_network [OF assms])
  have round_trip: "parse_urlencoded (url_query (kaitoUrl req)) = supplied req"
    by (simp add: url_query_kaitoUrl parse_urlencoded_toString queryParams_supplied)
  have "\<exists>rq. network (snd (snd (handler fetch req (res, w)))) = network w @ [rq] \<and>
             url rq = ''https://api.kaito.ai/api/v1/yaps?'' @ toString (queryParams req) \<and>
             parse_urlencoded (url_query (url rq)) = supplied req"
    using net round_trip
    by (intro exI [of _ "kaito_request (kaitoUrl req)"])
      (simp add: kaito_request_def kaitoUrl_def)
  then show ?thesis
    by (simp add: case_prod_unfold)
qed

theorem c10_no_query_injection_witness:
  "req_method \<lparr>req_method = ''GET'', query = [''username'' \<mapsto> ''a&user_id=1#x=y z'']\<rparr> = ''GET'' \<and>
   truthy (query \<lparr>req_method = ''GET'',
             query = [''username'' \<mapsto> ''a&user_id=1#x=y z'']\<rparr> ''username'') \<and>
   (case handler (\<lambda>rq. Rejects (JsError ''TypeError'' ''fetch failed'') :: int fetch_outcome)
           \<lparr>req_method = ''GET'', query = [''username'' \<mapsto> ''a&user_id=1#x=y z'']\<rparr>
           (new_res, \<lparr>console = [], network = []\<rparr>) of
      (out, res', w') \<Rightarrow>
        \<exists>rq. network w' = [rq] \<and>
          url rq = ''https://api.kaito.ai/api/v1/yaps?username=a%26user_id%3D1%23x%3Dy+z'' \<and>
          parse_urlencoded (url_query (url rq)) = [(''username'', ''a&user_id=1#x=y z'')])"
proof -
  let ?req = "\<lparr>req_method = ''GET'', query = [''username'' \<mapsto> ''a&user_id=1#x=y z'']\<rparr>"
  have qs: "toString (queryParams ?req) = ''username=a%26user_id%3D1%23x%3Dy+z''"
    by code_simp
  have sup: "supplied ?req = [(''username'', ''a&user_id=1#x=y z'')]"
    by (simp add: supplied_def)
  show ?thesis
    using c10_no_query_injection
      [where req = ?req
         and fetch = "\<lambda>rq. Rejects (JsError ''TypeError'' ''fetch failed'') :: int fetch_outcome"
         and res = new_res and w = "\<lparr>console = [], network = []\<rparr>"]
    by (simp add: qs sup case_prod_unfold)
qed

end
